theory Spec2Isabelle
  imports Main "HOL-Library.Sublist"
begin

section \<open>Strings\<close>

text \<open>
  Python \<open>str\<close> values are modelled as \<open>string\<close>, the UTF-8 bytes of the text. Every string
  operation of \<open>services/xui_service.py\<close> used below (concatenation, equality, \<open>startswith\<close>
  followed by a slice at the end of the matched prefix, search for an ASCII substring, split at
  an ASCII character) gives the same answer on the bytes as on the code points.
\<close>

text \<open>\<open>s.rstrip('/')\<close>: all trailing slashes are removed.\<close>

definition rstrip_slash :: "string \<Rightarrow> string" where
  "rstrip_slash s = rev (dropWhile (\<lambda>c. c = CHR ''/'') (rev s))"

text \<open>\<open>s.replace(pat, "")\<close>: the occurrences of \<open>pat\<close> are deleted, left to right, without overlap.\<close>

function str_remove :: "string \<Rightarrow> string \<Rightarrow> string" where
  "str_remove pat s =
     (if s = [] \<or> pat = [] then s
      else if prefix pat s then str_remove pat (drop (length pat) s)
      else hd s # str_remove pat (tl s))"
  by pat_completeness auto
termination
  by (relation "measure (\<lambda>(pat, s). length s)") auto

text \<open>\<open>s.split(c)[0]\<close> for a single character \<open>c\<close>: the text before the first \<open>c\<close>.\<close>

definition before_first :: "char \<Rightarrow> string \<Rightarrow> string" where
  "before_first c s = takeWhile (\<lambda>x. x \<noteq> c) s"

text \<open>\<open>pat in s\<close>: \<open>pat\<close> occurs in \<open>s\<close> as a contiguous substring.\<close>

fun contains :: "string \<Rightarrow> string \<Rightarrow> bool" where
  "contains pat [] = (pat = [])"
| "contains pat (c # cs) = (prefix pat (c # cs) \<or> contains pat cs)"

text \<open>
  \<open>s.lower()\<close> on the ASCII letters. A non-ASCII character never lowers to a text in which
  one of the three searched words (\<open>exist\<close>, \<open>duplicate\<close>, \<open>already\<close>) newly appears, so the
  search of \<open>create_user\<close> is not changed by leaving the other bytes alone.
\<close>

definition lower_char :: "char \<Rightarrow> char" where
  "lower_char c =
     (case map_of (zip ''ABCDEFGHIJKLMNOPQRSTUVWXYZ'' ''abcdefghijklmnopqrstuvwxyz'') c of
        Some l \<Rightarrow> l
      | None \<Rightarrow> c)"

definition lower :: "string \<Rightarrow> string" where
  "lower s = map lower_char s"

text \<open>\<open>str(n)\<close> of a Python integer: its decimal digits, with a minus sign when negative.\<close>

definition digit_char :: "nat \<Rightarrow> char" where
  "digit_char d = ''0123456789'' ! d"

fun str_nat :: "nat \<Rightarrow> string" where
  "str_nat n = (if n < 10 then [digit_char n] else str_nat (n div 10) @ [digit_char (n mod 10)])"

definition str_int :: "int \<Rightarrow> string" where
  "str_int i = (if i < 0 then CHR ''-'' # str_nat (nat (- i)) else str_nat (nat i))"

text \<open>Truthiness of an \<open>Optional[str]\<close>: neither \<open>None\<close> nor the empty string.\<close>

definition truthy :: "string option \<Rightarrow> bool" where
  "truthy s = (case s of None \<Rightarrow> False | Some t \<Rightarrow> t \<noteq> [])"

text \<open>\<open>d.get(key, "")\<close> on a field that holds text when it is present.\<close>

definition get_str :: "string option \<Rightarrow> string" where
  "get_str v = (case v of None \<Rightarrow> [] | Some t \<Rightarrow> t)"


section \<open>Configuration (\<open>config.py\<close>)\<close>

text \<open>
  The module constants the service reads. \<open>XUI_URL\<close> is the value after \<open>config.py\<close> has
  stripped its trailing slashes; an unset \<open>DEFAULT_INBOUND_ID\<close> is \<open>None\<close>; unset overrides are
  empty strings. The credentials only travel in the login body and are left out.
\<close>

record config =
  XUI_URL :: string
  DEFAULT_PROTOCOL :: string
  DEFAULT_TOTAL_GB :: int
  DEFAULT_INBOUND_ID :: "int option"
  XUI_SUBSCRIPTION_HOST :: string
  XUI_SUBSCRIPTION_PORT :: string


section \<open>Panel data\<close>

text \<open>
  A client record of an inbound's settings. The four keys the service reads with \<open>get\<close> may
  be missing (\<open>None\<close>); the others matter only in the record the service submits.
\<close>

record client =
  c_id :: "string option"
  c_flow :: string
  c_email :: "string option"
  c_limitIp :: int
  c_totalGB :: int
  c_expiryTime :: int
  c_enable :: bool
  c_tgId :: "string option"
  c_subId :: "string option"
  c_comment :: string
  c_reset :: int
  c_alterId :: "int option"

text \<open>
  An inbound of the listing. \<open>ib_settings\<close> is \<open>None\<close> when the settings text does not decode
  to an object, and the client list (empty when the key is missing) otherwise.
\<close>

record inbound =
  ib_id :: int
  ib_enable :: bool
  ib_protocol :: string
  ib_settings :: "client list option"


section \<open>The network\<close>

text \<open>
  A response body: not JSON at all (\<open>response.json()\<close> raises \<open>ValueError\<close>), JSON that is not
  an object (the following \<open>get\<close> raises), or the panel's object with its \<open>success\<close> flag
  (as Python truthiness), its \<open>msg\<close> (if present) and its \<open>obj\<close> (the inbound list; empty when
  missing).
\<close>

datatype body = NotJson | JsonOther | JsonObj bool "string option" "inbound list"

text \<open>
  What a request of the \<open>requests\<close> session does: raise \<open>Timeout\<close>, raise \<open>ConnectionError\<close>
  (a refused connection), raise anything else, or return a response with a status code.
\<close>

datatype outcome = Timeout | ConnectionError | OtherError | Response int body

text \<open>
  The panel as the service sees it during one operation: what each request is answered with.
  The add-client request is identified by its URL, the target inbound and the submitted record.
\<close>

record network =
  post_json :: "string \<Rightarrow> outcome"
  post_form :: "string \<Rightarrow> outcome"
  get_list :: "string \<Rightarrow> outcome"
  post_add_client :: "string \<Rightarrow> int \<Rightarrow> client \<Rightarrow> outcome"

datatype request =
  PostJson string
| PostForm string
| GetList string
| PostAddClient string int client

text \<open>
  The state of an \<open>XUIService\<close>: the \<open>_authenticated\<close> flag, and the requests issued so far
  (the effect on the outside world), oldest first.
\<close>

record service =
  authenticated :: bool
  sent :: "request list"

definition send :: "request \<Rightarrow> service \<Rightarrow> service" where
  "send r svc = svc\<lparr>sent := sent svc @ [r]\<rparr>"


section \<open>\<open>_login\<close> and \<open>_ensure_authenticated\<close>\<close>

definition login_endpoints :: "string list" where
  "login_endpoints = [''/login'', ''/xui/login'', ''/api/login'', ''/login/'']"

text \<open>
  One pass of the loop body of \<open>_login\<close>: \<open>Succeeded\<close> is \<open>return True\<close>, \<open>Aborted\<close> is
  \<open>return False\<close>, \<open>NextEndpoint\<close> is \<open>continue\<close> or falling off the end of the body.
\<close>

datatype attempt = Succeeded | Aborted | NextEndpoint

definition try_endpoint :: "network \<Rightarrow> string \<Rightarrow> service \<Rightarrow> attempt \<times> service" where
  "try_endpoint net login_url svc =
     (let svc1 = send (PostJson login_url) svc in
      case post_json net login_url of
        Timeout \<Rightarrow> (NextEndpoint, svc1)
      | ConnectionError \<Rightarrow> (Aborted, svc1)
      | OtherError \<Rightarrow> (NextEndpoint, svc1)
      | Response status b \<Rightarrow>
          if status = 200 then
            (case b of
               JsonObj success m ibs \<Rightarrow>
                 if success then (Succeeded, svc1\<lparr>authenticated := True\<rparr>)
                 else (NextEndpoint, svc1)
             | NotJson \<Rightarrow> (Succeeded, svc1\<lparr>authenticated := True\<rparr>)
             | JsonOther \<Rightarrow> (NextEndpoint, svc1))
          else if status = 404 then (NextEndpoint, svc1)
          else
            (let svc2 = send (PostForm login_url) svc1 in
             case post_form net login_url of
               Timeout \<Rightarrow> (NextEndpoint, svc2)
             | ConnectionError \<Rightarrow> (Aborted, svc2)
             | OtherError \<Rightarrow> (NextEndpoint, svc2)
             | Response status2 b2 \<Rightarrow>
                 if status2 = 200 then (Succeeded, svc2\<lparr>authenticated := True\<rparr>)
                 else (NextEndpoint, svc2)))"

fun login_loop :: "network \<Rightarrow> string \<Rightarrow> string list \<Rightarrow> service \<Rightarrow> bool \<times> service" where
  "login_loop net base [] svc = (False, svc)"
| "login_loop net base (endpoint # rest) svc =
     (case try_endpoint net (base @ endpoint) svc of
        (Succeeded, svc1) \<Rightarrow> (True, svc1)
      | (Aborted, svc1) \<Rightarrow> (False, svc1)
      | (NextEndpoint, svc1) \<Rightarrow> login_loop net base rest svc1)"

definition login :: "config \<Rightarrow> network \<Rightarrow> service \<Rightarrow> bool \<times> service" where
  "login cfg net svc = login_loop net (rstrip_slash (XUI_URL cfg)) login_endpoints svc"

definition ensure_authenticated :: "config \<Rightarrow> network \<Rightarrow> service \<Rightarrow> bool \<times> service" where
  "ensure_authenticated cfg net svc =
     (if \<not> authenticated svc then login cfg net svc else (True, svc))"


section \<open>\<open>_get_subscription_url\<close>\<close>

definition get_subscription_url :: "config \<Rightarrow> string \<Rightarrow> int option \<Rightarrow> string" where
  "get_subscription_url cfg sub_id inbound_id =
     (if XUI_SUBSCRIPTION_HOST cfg \<noteq> [] then
        ''https://'' @ XUI_SUBSCRIPTION_HOST cfg @ ''/sub/'' @ sub_id
      else if XUI_SUBSCRIPTION_PORT cfg \<noteq> [] then
        (let base_url = str_remove ''http://'' (str_remove ''https://'' (XUI_URL cfg));
             host =
               (if CHR '':'' \<in> set base_url then before_first (CHR '':'') base_url
                else if CHR ''/'' \<in> set base_url then before_first (CHR ''/'') base_url
                else (if CHR '':'' \<in> set base_url then before_first (CHR '':'') base_url
                      else base_url))
         in ''https://'' @ host @ '':'' @ XUI_SUBSCRIPTION_PORT cfg @ ''/sub/'' @ sub_id)
      else
        (let base_url = str_remove ''http://'' (str_remove ''https://'' (XUI_URL cfg));
             host_port =
               (if CHR ''/'' \<in> set base_url then before_first (CHR ''/'') base_url
                else base_url)
         in if CHR '':'' \<in> set host_port then
              ''https://'' @ before_first (CHR '':'') host_port @ '':2096/sub/'' @ sub_id
            else ''https://'' @ host_port @ '':2096/sub/'' @ sub_id))"

text \<open>
  The derivation as the specification words it, for comparison: the host is the admin base URL
  without its scheme, without its path and without its explicit port.
\<close>

definition spec_parsed_host :: "string \<Rightarrow> string" where
  "spec_parsed_host url =
     (let no_scheme =
            (if prefix ''https://'' url then drop 8 url
             else if prefix ''http://'' url then drop 7 url
             else url);
          no_path = before_first (CHR ''/'') no_scheme
      in before_first (CHR '':'') no_path)"

definition spec_subscription_url :: "config \<Rightarrow> string \<Rightarrow> string" where
  "spec_subscription_url cfg sub_id =
     (if XUI_SUBSCRIPTION_HOST cfg \<noteq> [] then
        ''https://'' @ XUI_SUBSCRIPTION_HOST cfg @ ''/sub/'' @ sub_id
      else if XUI_SUBSCRIPTION_PORT cfg \<noteq> [] then
        ''https://'' @ spec_parsed_host (XUI_URL cfg) @ '':'' @ XUI_SUBSCRIPTION_PORT cfg
          @ ''/sub/'' @ sub_id
      else ''https://'' @ spec_parsed_host (XUI_URL cfg) @ '':2096/sub/'' @ sub_id)"


section \<open>\<open>_get_existing_inbound\<close> and \<open>get_inbound_clients\<close>\<close>

definition list_url :: "config \<Rightarrow> string" where
  "list_url cfg = rstrip_slash (XUI_URL cfg) @ ''/panel/api/inbounds/list''"

fun first_enabled :: "string option \<Rightarrow> inbound list \<Rightarrow> inbound option" where
  "first_enabled protocol [] = None"
| "first_enabled protocol (inbound # rest) =
     (if ib_enable inbound then
        (if truthy protocol \<and> Some (ib_protocol inbound) = protocol then Some inbound
         else if \<not> truthy protocol then Some inbound
         else first_enabled protocol rest)
      else first_enabled protocol rest)"

definition get_existing_inbound ::
  "config \<Rightarrow> network \<Rightarrow> string option \<Rightarrow> service \<Rightarrow> inbound option \<times> service" where
  "get_existing_inbound cfg net protocol svc =
     (case ensure_authenticated cfg net svc of
        (ok, svc1) \<Rightarrow>
          if \<not> ok then (None, svc1)
          else
            (let svc2 = send (GetList (list_url cfg)) svc1 in
             case get_list net (list_url cfg) of
               Response status b \<Rightarrow>
                 if status \<noteq> 200 then (None, svc2)
                 else
                   (case b of
                      JsonObj success m inbounds \<Rightarrow>
                        if inbounds = [] then (None, svc2)
                        else (first_enabled protocol inbounds, svc2)
                    | NotJson \<Rightarrow> (None, svc2)
                    | JsonOther \<Rightarrow> (None, svc2))
             | Timeout \<Rightarrow> (None, svc2)
             | ConnectionError \<Rightarrow> (None, svc2)
             | OtherError \<Rightarrow> (None, svc2)))"

definition get_inbound_clients ::
  "config \<Rightarrow> network \<Rightarrow> int \<Rightarrow> service \<Rightarrow> inbound option \<times> service" where
  "get_inbound_clients cfg net inbound_id svc =
     (case ensure_authenticated cfg net svc of
        (ok, svc1) \<Rightarrow>
          if \<not> ok then (None, svc1)
          else
            (let svc2 = send (GetList (list_url cfg)) svc1 in
             case get_list net (list_url cfg) of
               Response status b \<Rightarrow>
                 if status \<noteq> 200 then (None, svc2)
                 else
                   (case b of
                      JsonObj success m inbounds \<Rightarrow>
                        (find (\<lambda>inbound. ib_id inbound = inbound_id) inbounds, svc2)
                    | NotJson \<Rightarrow> (None, svc2)
                    | JsonOther \<Rightarrow> (None, svc2))
             | Timeout \<Rightarrow> (None, svc2)
             | ConnectionError \<Rightarrow> (None, svc2)
             | OtherError \<Rightarrow> (None, svc2)))"


section \<open>\<open>find_user_by_username\<close>\<close>

text \<open>The dictionary returned for a found user (its constant \<open>found\<close> entry is left out).\<close>

record found_user =
  fu_username :: string
  fu_sub_id :: string
  fu_uuid :: "string option"
  fu_subscription_url :: string
  fu_inbound_id :: int

fun scan_clients :: "config \<Rightarrow> string \<Rightarrow> int \<Rightarrow> client list \<Rightarrow> found_user option" where
  "scan_clients cfg username check_inbound_id [] = None"
| "scan_clients cfg username check_inbound_id (client # rest) =
     (if get_str (c_email client) = username then
        (let sub_id = get_str (c_subId client) in
         if sub_id \<noteq> [] then
           Some \<lparr>fu_username = username, fu_sub_id = sub_id, fu_uuid = c_id client,
                 fu_subscription_url = get_subscription_url cfg sub_id (Some check_inbound_id),
                 fu_inbound_id = check_inbound_id\<rparr>
         else scan_clients cfg username check_inbound_id rest)
      else scan_clients cfg username check_inbound_id rest)"

definition find_user_by_username ::
  "config \<Rightarrow> network \<Rightarrow> string \<Rightarrow> int option \<Rightarrow> service \<Rightarrow> found_user option \<times> service" where
  "find_user_by_username cfg net username inbound_id svc =
     (case ensure_authenticated cfg net svc of
        (ok, svc1) \<Rightarrow>
          if \<not> ok then (None, svc1)
          else
            (case (case inbound_id of Some i \<Rightarrow> Some i | None \<Rightarrow> DEFAULT_INBOUND_ID cfg) of
               None \<Rightarrow> (None, svc1)
             | Some check_inbound_id \<Rightarrow>
                 if check_inbound_id = 0 then (None, svc1)
                 else
                   (case get_inbound_clients cfg net check_inbound_id svc1 of
                      (None, svc2) \<Rightarrow> (None, svc2)
                    | (Some inbound, svc2) \<Rightarrow>
                        (case ib_settings inbound of
                           None \<Rightarrow> (None, svc2)
                         | Some clients \<Rightarrow>
                             (scan_clients cfg username check_inbound_id clients, svc2)))))"


section \<open>\<open>get_all_user_subscriptions\<close> and \<open>get_user_subscription\<close>\<close>

record subscription =
  s_email :: string
  s_subscription_url :: string
  s_device_name :: string
  s_sub_id :: string

text \<open>The label of the first device, a Russian text ("primary device"), as its UTF-8 bytes.\<close>

definition primary_device :: string where
  "primary_device =
     [CHR 0xD0, CHR 0x9E, CHR 0xD1, CHR 0x81, CHR 0xD0, CHR 0xBD, CHR 0xD0, CHR 0xBE, CHR 0xD0,
      CHR 0xB2, CHR 0xD0, CHR 0xBD, CHR 0xD0, CHR 0xBE, CHR 0xD0, CHR 0xB5, CHR 0x20, CHR 0xD1,
      CHR 0x83, CHR 0xD1, CHR 0x81, CHR 0xD1, CHR 0x82, CHR 0xD1, CHR 0x80, CHR 0xD0, CHR 0xBE,
      CHR 0xD0, CHR 0xB9, CHR 0xD1, CHR 0x81, CHR 0xD1, CHR 0x82, CHR 0xD0, CHR 0xB2, CHR 0xD0,
      CHR 0xBE]"

text \<open>
  The device name of one kept record, up to the entry \<open>device_name or client_email\<close> of the
  appended dictionary.
\<close>

definition device_label :: "string option \<Rightarrow> string \<Rightarrow> string" where
  "device_label base_username client_email =
     (let device_name =
            (case base_username of
               Some b \<Rightarrow>
                 if client_email = b then primary_device
                 else if prefix (b @ ''_'') client_email then drop (length b + 1) client_email
                 else client_email
             | None \<Rightarrow> client_email)
      in if device_name \<noteq> [] then device_name else client_email)"

fun collect_subscriptions ::
  "config \<Rightarrow> int \<Rightarrow> string option \<Rightarrow> client list \<Rightarrow> subscription list" where
  "collect_subscriptions cfg telegram_user_id base_username [] = []"
| "collect_subscriptions cfg telegram_user_id base_username (client # rest) =
     (let client_tg_id = get_str (c_tgId client);
          client_email = get_str (c_email client)
      in if client_tg_id \<noteq> str_int telegram_user_id then
           collect_subscriptions cfg telegram_user_id base_username rest
         else
           (let sub_id = get_str (c_subId client) in
            if sub_id = [] then collect_subscriptions cfg telegram_user_id base_username rest
            else
              \<lparr>s_email = client_email,
               s_subscription_url = get_subscription_url cfg sub_id (DEFAULT_INBOUND_ID cfg),
               s_device_name = device_label base_username client_email,
               s_sub_id = sub_id\<rparr>
              # collect_subscriptions cfg telegram_user_id base_username rest))"

definition get_all_user_subscriptions ::
  "config \<Rightarrow> network \<Rightarrow> int \<Rightarrow> string option \<Rightarrow> service \<Rightarrow> subscription list \<times> service" where
  "get_all_user_subscriptions cfg net telegram_user_id username svc =
     (case ensure_authenticated cfg net svc of
        (ok, svc1) \<Rightarrow>
          if \<not> ok then ([], svc1)
          else
            (case DEFAULT_INBOUND_ID cfg of
               None \<Rightarrow> ([], svc1)
             | Some default_id \<Rightarrow>
                 if default_id = 0 then ([], svc1)
                 else
                   (case get_inbound_clients cfg net default_id svc1 of
                      (None, svc2) \<Rightarrow> ([], svc2)
                    | (Some inbound, svc2) \<Rightarrow>
                        (case ib_settings inbound of
                           None \<Rightarrow> ([], svc2)
                         | Some clients \<Rightarrow>
                             (collect_subscriptions cfg telegram_user_id
                                (if truthy username then username else None) clients,
                              svc2)))))"

definition get_user_subscription ::
  "config \<Rightarrow> network \<Rightarrow> int \<Rightarrow> string option \<Rightarrow> service \<Rightarrow> string option \<times> service" where
  "get_user_subscription cfg net telegram_user_id username svc =
     (case get_all_user_subscriptions cfg net telegram_user_id username svc of
        (all_subscriptions, svc1) \<Rightarrow>
          (case all_subscriptions of
             [] \<Rightarrow> (None, svc1)
           | first # others \<Rightarrow> (Some (s_subscription_url first), svc1)))"


section \<open>\<open>create_user\<close>\<close>

text \<open>
  The dictionaries \<open>create_user\<close> returns, without their fixed message texts:
  \<open>UsernameExists name url\<close> carries the name quoted in its message and the subscription URL,
  \<open>Created uuid sub_id inbound_id url total_gb\<close> the entries of the success dictionary.
  The untagged \<open>None\<close> of the source is \<open>None\<close> here.
\<close>

datatype create_result =
  UsernameRequired
| TooManyDevices
| UsernameExists string string
| Created string string int string int

text \<open>
  The \<open>while True\<close> loop that looks for a free numbered key, entered with \<open>counter = 2\<close>:
  \<open>Some new_email\<close> is the \<open>break\<close>, \<open>None\<close> the return of \<open>too_many_devices\<close>.
\<close>

function probe_devices ::
  "config \<Rightarrow> network \<Rightarrow> string \<Rightarrow> string \<Rightarrow> nat \<Rightarrow> service \<Rightarrow> string option \<times> service" where
  "probe_devices cfg net username device_name counter svc =
     (let new_email = username @ ''_'' @ device_name @ ''_'' @ str_nat counter in
      case find_user_by_username cfg net new_email None svc of
        (None, svc1) \<Rightarrow> (Some new_email, svc1)
      | (Some existing, svc1) \<Rightarrow>
          if counter + 1 > 100 then (None, svc1)
          else probe_devices cfg net username device_name (counter + 1) svc1)"
  by pat_completeness auto
termination
  by (relation "measure (\<lambda>(cfg, net, username, device_name, counter, svc). 101 - counter)") auto

text \<open>
  The choice of the email key: \<open>Inl\<close> is an early return of \<open>create_user\<close>, \<open>Inr\<close> the
  email the function goes on with.
\<close>

definition choose_email ::
  "config \<Rightarrow> network \<Rightarrow> string \<Rightarrow> string option \<Rightarrow> service \<Rightarrow> (create_result + string) \<times> service" where
  "choose_email cfg net username device_name svc =
     (if truthy device_name then
        (let email = username @ ''_'' @ get_str device_name in
         case find_user_by_username cfg net email None svc of
           (Some existing_user, svc1) \<Rightarrow>
             (case probe_devices cfg net username (get_str device_name) 2 svc1 of
                (Some new_email, svc2) \<Rightarrow> (Inr new_email, svc2)
              | (None, svc2) \<Rightarrow> (Inl TooManyDevices, svc2))
         | (None, svc1) \<Rightarrow> (Inr email, svc1))
      else
        (let email = username in
         case find_user_by_username cfg net email None svc of
           (Some existing_user, svc1) \<Rightarrow>
             (Inl (UsernameExists email (fu_subscription_url existing_user)), svc1)
         | (None, svc1) \<Rightarrow> (Inr email, svc1)))"

text \<open>The target inbound: the configured id if there is one, else the id of a discovered inbound.\<close>

definition target_inbound :: "config \<Rightarrow> network \<Rightarrow> service \<Rightarrow> int option \<times> service" where
  "target_inbound cfg net svc =
     (case DEFAULT_INBOUND_ID cfg of
        Some default_id \<Rightarrow> (Some default_id, svc)
      | None \<Rightarrow>
          (case get_existing_inbound cfg net (Some (DEFAULT_PROTOCOL cfg)) svc of
             (Some existing_inbound, svc1) \<Rightarrow> (Some (ib_id existing_inbound), svc1)
           | (None, svc1) \<Rightarrow> (None, svc1)))"

definition client_data :: "config \<Rightarrow> int \<Rightarrow> string \<Rightarrow> string \<Rightarrow> string \<Rightarrow> client" where
  "client_data cfg telegram_user_id email user_uuid sub_id =
     \<lparr>c_id = Some user_uuid, c_flow = [], c_email = Some email, c_limitIp = 0,
      c_totalGB = DEFAULT_TOTAL_GB cfg, c_expiryTime = 0, c_enable = True,
      c_tgId = Some (str_int telegram_user_id), c_subId = Some sub_id, c_comment = [],
      c_reset = 0,
      c_alterId = (if DEFAULT_PROTOCOL cfg = ''vmess'' then Some 0 else None)\<rparr>"

definition add_client_url :: "config \<Rightarrow> string" where
  "add_client_url cfg = rstrip_slash (XUI_URL cfg) @ ''/panel/api/inbounds/addClient''"

definition existence_indicated :: "string \<Rightarrow> bool" where
  "existence_indicated error_msg =
     (let error_lower = lower error_msg in
      contains ''exist'' error_lower \<or> contains ''duplicate'' error_lower
        \<or> contains ''already'' error_lower)"

text \<open>
  The lookup both failure branches make once the message indicates an existing user, and the
  dictionary they return when it finds one; otherwise control reaches the final \<open>return None\<close>.
\<close>

definition recover_existing ::
  "config \<Rightarrow> network \<Rightarrow> string \<Rightarrow> int \<Rightarrow> service \<Rightarrow> create_result option \<times> service" where
  "recover_existing cfg net username inbound_id svc =
     (case find_user_by_username cfg net username (Some inbound_id) svc of
        (Some existing_user, svc1) \<Rightarrow>
          (Some (UsernameExists username (fu_subscription_url existing_user)), svc1)
      | (None, svc1) \<Rightarrow> (None, svc1))"

definition add_client ::
  "config \<Rightarrow> network \<Rightarrow> int \<Rightarrow> string \<Rightarrow> string \<Rightarrow> int \<Rightarrow> string \<Rightarrow> string \<Rightarrow> service
     \<Rightarrow> create_result option \<times> service" where
  "add_client cfg net telegram_user_id username email inbound_id user_uuid sub_id svc =
     (let data = client_data cfg telegram_user_id email user_uuid sub_id;
          svc1 = send (PostAddClient (add_client_url cfg) inbound_id data) svc
      in case post_add_client net (add_client_url cfg) inbound_id data of
           Response status b \<Rightarrow>
             if status = 200 then
               (case b of
                  JsonObj success m ibs \<Rightarrow>
                    if success then
                      (Some (Created user_uuid sub_id inbound_id
                               (get_subscription_url cfg sub_id (Some inbound_id))
                               (DEFAULT_TOTAL_GB cfg)),
                       svc1)
                    else
                      (let error_msg = (case m of None \<Rightarrow> ''Unknown error'' | Some t \<Rightarrow> t) in
                       if existence_indicated error_msg then
                         recover_existing cfg net username inbound_id svc1
                       else (None, svc1))
                | NotJson \<Rightarrow> (None, svc1)
                | JsonOther \<Rightarrow> (None, svc1))
             else
               (case b of
                  JsonObj success m ibs \<Rightarrow>
                    if existence_indicated (get_str m) then
                      recover_existing cfg net username inbound_id svc1
                    else (None, svc1)
                | NotJson \<Rightarrow> (None, svc1)
                | JsonOther \<Rightarrow> (None, svc1))
         | Timeout \<Rightarrow> (None, svc1)
         | ConnectionError \<Rightarrow> (None, svc1)
         | OtherError \<Rightarrow> (None, svc1))"

text \<open>
  \<open>create_user\<close>. The two random values it draws (\<open>uuid.uuid4()\<close> and
  \<open>secrets.token_urlsafe(12)\<close>) are arguments of the model.
\<close>

definition create_user ::
  "config \<Rightarrow> network \<Rightarrow> int \<Rightarrow> string option \<Rightarrow> string option \<Rightarrow> string \<Rightarrow> string \<Rightarrow> service
     \<Rightarrow> create_result option \<times> service" where
  "create_user cfg net telegram_user_id username device_name user_uuid sub_id svc =
     (if \<not> truthy username then (Some UsernameRequired, svc)
      else
        (case ensure_authenticated cfg net svc of
           (ok, svc1) \<Rightarrow>
             if \<not> ok then (None, svc1)
             else
               (case choose_email cfg net (get_str username) device_name svc1 of
                  (Inl early, svc2) \<Rightarrow> (Some early, svc2)
                | (Inr email, svc2) \<Rightarrow>
                    (case target_inbound cfg net svc2 of
                       (None, svc3) \<Rightarrow> (None, svc3)
                     | (Some inbound_id, svc3) \<Rightarrow>
                         add_client cfg net telegram_user_id (get_str username) email
                           inbound_id user_uuid sub_id svc3))))"


section \<open>Vocabulary of the properties\<close>

text \<open>
  The login URLs tried, read off the issued requests: every pass of the loop of \<open>_login\<close>
  starts with exactly one JSON post to the candidate's URL.
\<close>

fun tried :: "request list \<Rightarrow> string list" where
  "tried [] = []"
| "tried (PostJson url # rs) = url # tried rs"
| "tried (PostForm url # rs) = tried rs"
| "tried (GetList url # rs) = tried rs"
| "tried (PostAddClient url i c # rs) = tried rs"

text \<open>
  A candidate's connection is refused, or times out, on the JSON post or on the form-encoded
  post that follows a response other than 200 and 404.
\<close>

definition refused :: "network \<Rightarrow> string \<Rightarrow> bool" where
  "refused net url =
     (case post_json net url of
        ConnectionError \<Rightarrow> True
      | Response status b \<Rightarrow> status \<noteq> 200 \<and> status \<noteq> 404 \<and> post_form net url = ConnectionError
      | Timeout \<Rightarrow> False
      | OtherError \<Rightarrow> False)"

definition timed_out :: "network \<Rightarrow> string \<Rightarrow> bool" where
  "timed_out net url =
     (case post_json net url of
        Timeout \<Rightarrow> True
      | Response status b \<Rightarrow> status \<noteq> 200 \<and> status \<noteq> 404 \<and> post_form net url = Timeout
      | ConnectionError \<Rightarrow> False
      | OtherError \<Rightarrow> False)"

text \<open>
  The outcome of one candidate, read off the panel's answers. The JSON post is retried with a
  form-encoded body when it got a response other than 200 and 404. A candidate succeeds on a
  200 answer to the JSON post that carries the success flag or is not JSON, or on a 200 answer
  to the form-encoded retry. The loop moves on past a candidate that neither succeeds nor
  refuses the connection.
\<close>

definition retried :: "network \<Rightarrow> string \<Rightarrow> bool" where
  "retried net url =
     (case post_json net url of
        Response status b \<Rightarrow> status \<noteq> 200 \<and> status \<noteq> 404
      | Timeout \<Rightarrow> False
      | ConnectionError \<Rightarrow> False
      | OtherError \<Rightarrow> False)"

definition succeeds :: "network \<Rightarrow> string \<Rightarrow> bool" where
  "succeeds net url =
     (case post_json net url of
        Response status b \<Rightarrow>
          if status = 200 then
            (case b of JsonObj success m ibs \<Rightarrow> success | NotJson \<Rightarrow> True | JsonOther \<Rightarrow> False)
          else if status = 404 then False
          else
            (case post_form net url of
               Response status2 b2 \<Rightarrow> status2 = 200
             | Timeout \<Rightarrow> False
             | ConnectionError \<Rightarrow> False
             | OtherError \<Rightarrow> False)
      | Timeout \<Rightarrow> False
      | ConnectionError \<Rightarrow> False
      | OtherError \<Rightarrow> False)"

definition moves_on :: "network \<Rightarrow> string \<Rightarrow> bool" where
  "moves_on net url = (\<not> succeeds net url \<and> \<not> refused net url)"

text \<open>The requests one attempt at a candidate issues.\<close>

definition attempt_requests :: "network \<Rightarrow> string \<Rightarrow> request list" where
  "attempt_requests net url = PostJson url # (if retried net url then [PostForm url] else [])"

text \<open>The service after the candidates \<open>cands\<close> have been attempted, one after the other.\<close>

definition attempted :: "network \<Rightarrow> string \<Rightarrow> string list \<Rightarrow> service \<Rightarrow> service" where
  "attempted net base cands svc =
     svc\<lparr>sent := sent svc @ concat (map (\<lambda>x. attempt_requests net (base @ x)) cands)\<rparr>"

text \<open>The single-result lookup as the head of the list-returning lookup.\<close>

definition spec_first_url :: "subscription list \<Rightarrow> string option" where
  "spec_first_url subs = (if subs = [] then None else Some (s_subscription_url (hd subs)))"

text \<open>The device label as the specification words it, for a given base username.\<close>

definition spec_device_label :: "string \<Rightarrow> string \<Rightarrow> string" where
  "spec_device_label base_username email =
     (if email = base_username then primary_device
      else if prefix (base_username @ ''_'') email then drop (length base_username + 1) email
      else email)"

text \<open>The add-client submissions among the issued requests: target inbound and record.\<close>

fun submitted :: "request list \<Rightarrow> (int \<times> client) list" where
  "submitted [] = []"
| "submitted (PostAddClient url i c # rs) = (i, c) # submitted rs"
| "submitted (PostJson url # rs) = submitted rs"
| "submitted (PostForm url # rs) = submitted rs"
| "submitted (GetList url # rs) = submitted rs"




section \<open>Example data\<close>

definition svc0 :: service where
  "svc0 = \<lparr>authenticated = False, sent = []\<rparr>"

definition cfg_example :: config where
  "cfg_example =
     \<lparr>XUI_URL = ''https://panel.example.com:54321/admin'', DEFAULT_PROTOCOL = ''vmess'',
      DEFAULT_TOTAL_GB = 100, DEFAULT_INBOUND_ID = Some 1, XUI_SUBSCRIPTION_HOST = [],
      XUI_SUBSCRIPTION_PORT = ''2096''\<rparr>"

text \<open>A base URL whose path holds a colon, with a port override.\<close>

definition cfg_colon :: config where
  "cfg_colon =
     \<lparr>XUI_URL = ''https://panel.example.com/a:b'', DEFAULT_PROTOCOL = ''vmess'',
      DEFAULT_TOTAL_GB = 100, DEFAULT_INBOUND_ID = None, XUI_SUBSCRIPTION_HOST = [],
      XUI_SUBSCRIPTION_PORT = ''2096''\<rparr>"

text \<open>A panel whose third login path answers, the others being unknown to it.\<close>

definition net_login_cycle :: network where
  "net_login_cycle =
     \<lparr>post_json =
        (\<lambda>url. if url = ''https://panel.example.com:54321/admin/api/login''
               then Response 200 (JsonObj True None []) else Response 404 NotJson),
      post_form = (\<lambda>url. OtherError),
      get_list = (\<lambda>url. OtherError),
      post_add_client = (\<lambda>url i c. OtherError)\<rparr>"

text \<open>A panel that times out on the first login path and refuses the connection on the second.\<close>

definition net_refusing :: network where
  "net_refusing =
     \<lparr>post_json =
        (\<lambda>url. if url = ''https://panel.example.com:54321/admin/login'' then Timeout
               else if url = ''https://panel.example.com:54321/admin/xui/login''
               then ConnectionError
               else Response 200 (JsonObj True None [])),
      post_form = (\<lambda>url. OtherError),
      get_list = (\<lambda>url. OtherError),
      post_add_client = (\<lambda>url i c. OtherError)\<rparr>"

text \<open>All four login paths are unknown to the panel.\<close>

definition net_all_404 :: network where
  "net_all_404 =
     \<lparr>post_json = (\<lambda>url. Response 404 NotJson),
      post_form = (\<lambda>url. OtherError),
      get_list = (\<lambda>url. OtherError),
      post_add_client = (\<lambda>url i c. OtherError)\<rparr>"

text \<open>The first login path answers 200 without the success flag, the second with it.\<close>

definition net_unsuccessful_first :: network where
  "net_unsuccessful_first =
     \<lparr>post_json =
        (\<lambda>url. if url = ''https://panel.example.com:54321/admin/login''
               then Response 200 (JsonObj False (Some ''wrong password'') [])
               else Response 200 (JsonObj True None [])),
      post_form = (\<lambda>url. OtherError),
      get_list = (\<lambda>url. OtherError),
      post_add_client = (\<lambda>url i c. OtherError)\<rparr>"

text \<open>
  The first login path answers 404 and the second refuses the connection; the others would
  answer 200.
\<close>

definition net_404_then_refusing :: network where
  "net_404_then_refusing =
     \<lparr>post_json =
        (\<lambda>url. if url = ''https://panel.example.com:54321/admin/login''
               then Response 404 NotJson
               else if url = ''https://panel.example.com:54321/admin/xui/login''
               then ConnectionError
               else Response 200 (JsonObj True None [])),
      post_form = (\<lambda>url. OtherError),
      get_list = (\<lambda>url. OtherError),
      post_add_client = (\<lambda>url i c. OtherError)\<rparr>"

text \<open>
  The first login path answers 500 and times out on the form-encoded retry; the second
  answers 200 with the success flag.
\<close>

definition net_timeout_then_ok :: network where
  "net_timeout_then_ok =
     \<lparr>post_json =
        (\<lambda>url. if url = ''https://panel.example.com:54321/admin/login''
               then Response 500 NotJson
               else Response 200 (JsonObj True None [])),
      post_form = (\<lambda>url. Timeout),
      get_list = (\<lambda>url. OtherError),
      post_add_client = (\<lambda>url i c. OtherError)\<rparr>"

text \<open>Panel data for the examples: a client record with all the keys, an enabled inbound, and a
  panel that accepts the login and lists the given inbounds.\<close>


definition mk_client :: "string \<Rightarrow> string \<Rightarrow> string \<Rightarrow> string \<Rightarrow> client" where
  "mk_client uuid email tg sub =
     \<lparr>c_id = Some uuid, c_flow = [], c_email = Some email, c_limitIp = 0, c_totalGB = 100,
      c_expiryTime = 0, c_enable = True, c_tgId = Some tg, c_subId = Some sub, c_comment = [],
      c_reset = 0, c_alterId = Some 0\<rparr>"

definition panel :: "inbound list \<Rightarrow> (string \<Rightarrow> int \<Rightarrow> client \<Rightarrow> outcome) \<Rightarrow> network" where
  "panel inbounds add =
     \<lparr>post_json = (\<lambda>url. Response 200 (JsonObj True None [])),
      post_form = (\<lambda>url. OtherError),
      get_list = (\<lambda>url. Response 200 (JsonObj True None inbounds)),
      post_add_client = add\<rparr>"

definition vmess_inbound :: "int \<Rightarrow> client list \<Rightarrow> inbound" where
  "vmess_inbound i clients =
     \<lparr>ib_id = i, ib_enable = True, ib_protocol = ''vmess'', ib_settings = Some clients\<rparr>"

definition clients_three :: "client list" where
  "clients_three =
     [mk_client ''u-1'' ''alice'' ''7'' ''S1'',
      mk_client ''u-2'' ''bob'' ''8'' ''S2'',
      mk_client ''u-3'' ''alice_phone'' ''7'' ''S3'',
      (mk_client ''u-4'' ''alice_old'' ''7'' [])\<lparr>c_subId := None\<rparr>,
      mk_client ''u-5'' ''carol'' ''7'' ''S5'']"

definition net_three :: network where
  "net_three = panel [vmess_inbound 1 clients_three] (\<lambda>url i c. OtherError)"

text \<open>A panel whose default inbound holds one record, with the email \<open>alice_\<close>.\<close>

definition net_underscore :: network where
  "net_underscore =
     panel [vmess_inbound 1 [mk_client ''u-6'' ''alice_'' ''7'' ''S6'']] (\<lambda>url i c. OtherError)"

text \<open>The example configuration without a configured inbound id.\<close>

definition cfg_auto :: config where
  "cfg_auto = cfg_example\<lparr>DEFAULT_INBOUND_ID := None\<rparr>"

text \<open>A panel with no enabled \<open>vmess\<close> inbound: one is disabled, the other speaks \<open>vless\<close>.\<close>

definition net_disabled :: network where
  "net_disabled =
     panel [(vmess_inbound 1 [])\<lparr>ib_enable := False\<rparr>,
            (vmess_inbound 2 [])\<lparr>ib_protocol := ''vless''\<rparr>]
       (\<lambda>url i c. Response 200 (JsonObj True None []))"









text \<open>
  Panels that hold the accounts \<open>alice\<close> and \<open>alice_phone\<close> in inbound 1 and reject a submitted
  record as a duplicate, with status 200 and with status 400.
\<close>

definition clients_pair :: "client list" where
  "clients_pair =
     [mk_client ''u-1'' ''alice'' ''7'' ''S1'',
      mk_client ''u-2'' ''alice_phone'' ''7'' ''S2'']"

definition net_duplicate :: network where
  "net_duplicate =
     panel [vmess_inbound 1 clients_pair]
       (\<lambda>url i c. Response 200 (JsonObj False (Some ''Duplicate email: alice_phone'') []))"

definition net_duplicate_400 :: network where
  "net_duplicate_400 =
     panel [vmess_inbound 1 clients_pair]
       (\<lambda>url i c. Response 400 (JsonObj False (Some ''Duplicate email: alice_phone'') []))"


section \<open>Unfolding the example data\<close>

lemmas ex_defs = mk_client_def panel_def vmess_inbound_def clients_three_def net_three_def
  cfg_example_def svc0_def


section \<open>Subscription URL derivation\<close>

lemma get_subscription_url_host_override:
  "XUI_SUBSCRIPTION_HOST cfg \<noteq> [] \<Longrightarrow>
     get_subscription_url cfg sub_id inbound_id
       = ''https://'' @ XUI_SUBSCRIPTION_HOST cfg @ ''/sub/'' @ sub_id"
  by (simp add: get_subscription_url_def)

lemma get_subscription_url_same_inbound:
  "get_subscription_url cfg sub_id i = get_subscription_url cfg sub_id j"
  by (simp add: get_subscription_url_def)

lemma get_subscription_url_spec_examples:
  "get_subscription_url (cfg_example\<lparr>XUI_SUBSCRIPTION_HOST := ''1.2.3.4:2096''\<rparr>) ''Ab12_-xyz'' None
     = ''https://1.2.3.4:2096/sub/Ab12_-xyz''"
  "get_subscription_url cfg_example ''Ab12_-xyz'' None
     = ''https://panel.example.com:2096/sub/Ab12_-xyz''"
  "get_subscription_url
     (cfg_example\<lparr>XUI_URL := ''https://panel.example.com/admin'', XUI_SUBSCRIPTION_PORT := []\<rparr>)
     ''Ab12_-xyz'' None
     = ''https://panel.example.com:2096/sub/Ab12_-xyz''"
  by (simp_all add: get_subscription_url_def cfg_example_def before_first_def)

text \<open>
  C3. The derived URL follows the three rules in their priority order, the host of rules (b)
  and (c) being the admin base URL without scheme, path and port. With a port override (rule
  (b)) and the base URL \<open>https://panel.example.com/a:b\<close>, whose path holds a colon, the
  function keeps the start of the path in the host: it returns
  \<open>https://panel.example.com/a:2096/sub/Ab12_-xyz\<close>, where the rule as specified gives
  \<open>https://panel.example.com:2096/sub/Ab12_-xyz\<close>, and where the function itself, on the same
  base URL without the port override (rule (c)), returns the latter.
\<close>

theorem get_subscription_url_port_override_keeps_path:
  "get_subscription_url cfg_colon ''Ab12_-xyz'' None
     = ''https://panel.example.com/a:2096/sub/Ab12_-xyz''
   \<and> spec_subscription_url cfg_colon ''Ab12_-xyz''
     = ''https://panel.example.com:2096/sub/Ab12_-xyz''
   \<and> get_subscription_url (cfg_colon\<lparr>XUI_SUBSCRIPTION_PORT := []\<rparr>) ''Ab12_-xyz'' None
     = ''https://panel.example.com:2096/sub/Ab12_-xyz''"
  by (simp add: get_subscription_url_def spec_subscription_url_def spec_parsed_host_def
      cfg_colon_def before_first_def)


section \<open>Authentication\<close>

lemma tried_append: "tried (xs @ ys) = tried xs @ tried ys"
  by (induction xs rule: tried.induct) simp_all

lemma try_endpoint_Succeeded:
  "try_endpoint net url svc = (Succeeded, svc1) \<Longrightarrow> authenticated svc1"
  by (auto simp: try_endpoint_def Let_def split: outcome.splits body.splits if_splits)

lemma login_loop_True: "login_loop net base es svc = (True, svc1) \<Longrightarrow> authenticated svc1"
proof (induction es arbitrary: svc)
  case Nil
  then show ?case by simp
next
  case (Cons e es)
  then show ?case
    by (auto split: prod.splits attempt.splits dest: try_endpoint_Succeeded)
qed

lemma ensure_authenticated_True:
  "ensure_authenticated cfg net svc = (True, svc1) \<Longrightarrow> authenticated svc1"
  by (auto simp: ensure_authenticated_def login_def split: if_splits dest: login_loop_True)

lemma ensure_authenticated_id:
  "authenticated svc \<Longrightarrow> ensure_authenticated cfg net svc = (True, svc)"
  by (simp add: ensure_authenticated_def)

text \<open>One attempt, by the outcome of its candidate.\<close>

lemma try_endpoint_moves_on:
  "moves_on net url \<Longrightarrow>
     try_endpoint net url svc = (NextEndpoint, svc\<lparr>sent := sent svc @ attempt_requests net url\<rparr>)"
  by (auto simp: moves_on_def succeeds_def refused_def retried_def attempt_requests_def
      try_endpoint_def send_def Let_def split: outcome.splits body.splits if_splits)

lemma try_endpoint_succeeds:
  "succeeds net url \<Longrightarrow>
     try_endpoint net url svc =
       (Succeeded, svc\<lparr>authenticated := True, sent := sent svc @ attempt_requests net url\<rparr>)"
  by (auto simp: succeeds_def retried_def attempt_requests_def try_endpoint_def send_def Let_def
      split: outcome.splits body.splits if_splits)

lemma try_endpoint_refused:
  "refused net url \<Longrightarrow>
     try_endpoint net url svc = (Aborted, svc\<lparr>sent := sent svc @ attempt_requests net url\<rparr>)"
  by (auto simp: refused_def retried_def attempt_requests_def try_endpoint_def send_def Let_def
      split: outcome.splits body.splits if_splits)

lemma timed_out_moves_on: "timed_out net url \<Longrightarrow> moves_on net url"
  by (auto simp: timed_out_def moves_on_def succeeds_def refused_def
      split: outcome.splits body.splits if_splits)

lemma not_found_moves_on:
  "post_json net url = Response 404 b \<Longrightarrow>
     moves_on net url \<and> attempt_requests net url = [PostJson url]"
  by (simp add: moves_on_def succeeds_def refused_def retried_def attempt_requests_def)

lemma ok_succeeds:
  "post_json net url = Response 200 (JsonObj True m ibs) \<or> post_json net url = Response 200 NotJson
     \<Longrightarrow> succeeds net url \<and> attempt_requests net url = [PostJson url]"
  by (auto simp: succeeds_def retried_def attempt_requests_def)

lemma attempted_Nil: "attempted net base [] svc = svc"
  by (simp add: attempted_def)

lemma attempted_Cons:
  "attempted net base (x # xs) svc =
     attempted net base xs (svc\<lparr>sent := sent svc @ attempt_requests net (base @ x)\<rparr>)"
  by (simp add: attempted_def)

lemma attempted_snoc:
  "attempted net base (xs @ [x]) svc =
     (attempted net base xs svc)\<lparr>sent := sent (attempted net base xs svc)
                                       @ attempt_requests net (base @ x)\<rparr>"
  by (simp add: attempted_def)

lemma login_loop_moves_on:
  assumes "\<forall>x \<in> set pre. moves_on net (base @ x)"
  shows "login_loop net base (pre @ rest) svc = login_loop net base rest (attempted net base pre svc)"
  using assms
proof (induction pre arbitrary: svc)
  case Nil
  show ?case by (simp add: attempted_Nil)
next
  case (Cons x pre)
  from Cons.prems have x: "moves_on net (base @ x)" and pre: "\<forall>y \<in> set pre. moves_on net (base @ y)"
    by simp_all
  show ?case
    using Cons.IH[OF pre] by (simp add: try_endpoint_moves_on[OF x] attempted_Cons)
qed

lemma tried_attempted:
  "tried (sent (attempted net base cands svc)) = tried (sent svc) @ map ((@) base) cands"
  by (induction cands arbitrary: svc)
    (simp_all add: attempted_Nil attempted_Cons attempt_requests_def tried_append)

lemma login_example_base:
  "login cfg_example net svc =
     login_loop net ''https://panel.example.com:54321/admin''
       [''/login'', ''/xui/login'', ''/api/login'', ''/login/''] svc"
  by (simp add: login_def login_endpoints_def cfg_example_def rstrip_slash_def)

text \<open>
  C8. \<open>_login\<close> tries the candidates in order. Let it have moved on past the candidates
  \<open>pre\<close>, whatever their answers. If they were all the candidates, it returns \<open>False\<close>. If
  the next candidate answers 404, it goes on with the candidates after that one, having issued
  the one JSON post to it. If the next candidate answers 200 with the success flag, or 200
  with a body that is not JSON, it returns \<open>True\<close> at once, the session authenticated, that
  JSON post being the last request: nothing is sent to a later candidate. The same holds for a
  candidate that succeeds on the form-encoded retry.
\<close>

theorem login_skips_404_stops_at_200:
  assumes "\<forall>x \<in> set pre. moves_on net (base @ x)"
  shows "login_loop net base pre svc = (False, attempted net base pre svc)
         \<and> ((\<exists>b. post_json net (base @ e) = Response 404 b) \<longrightarrow>
              login_loop net base (pre @ e # post) svc
                = login_loop net base post (send (PostJson (base @ e)) (attempted net base pre svc)))
         \<and> (post_json net (base @ e) = Response 200 (JsonObj True m ibs)
              \<or> post_json net (base @ e) = Response 200 NotJson \<longrightarrow>
              login_loop net base (pre @ e # post) svc
                = (True, (send (PostJson (base @ e)) (attempted net base pre svc))
                           \<lparr>authenticated := True\<rparr>))
         \<and> (succeeds net (base @ e) \<longrightarrow>
              login_loop net base (pre @ e # post) svc
                = (True, (attempted net base (pre @ [e]) svc)\<lparr>authenticated := True\<rparr>))"
proof (intro conjI impI)
  show "login_loop net base pre svc = (False, attempted net base pre svc)"
    using login_loop_moves_on[OF assms, of "[]" svc] by simp
next
  assume "\<exists>b. post_json net (base @ e) = Response 404 b"
  then obtain b where b: "post_json net (base @ e) = Response 404 b"
    by blast
  note nf = not_found_moves_on[OF b]
  show "login_loop net base (pre @ e # post) svc
          = login_loop net base post (send (PostJson (base @ e)) (attempted net base pre svc))"
    unfolding login_loop_moves_on[OF assms]
    using nf by (simp add: try_endpoint_moves_on send_def)
next
  assume "post_json net (base @ e) = Response 200 (JsonObj True m ibs)
          \<or> post_json net (base @ e) = Response 200 NotJson"
  note ok = ok_succeeds[OF this]
  show "login_loop net base (pre @ e # post) svc
          = (True, (send (PostJson (base @ e)) (attempted net base pre svc))
                     \<lparr>authenticated := True\<rparr>)"
    unfolding login_loop_moves_on[OF assms]
    using ok by (simp add: try_endpoint_succeeds send_def)
next
  assume s: "succeeds net (base @ e)"
  show "login_loop net base (pre @ e # post) svc
          = (True, (attempted net base (pre @ [e]) svc)\<lparr>authenticated := True\<rparr>)"
    unfolding login_loop_moves_on[OF assms]
    by (simp add: try_endpoint_succeeds[OF s] attempted_snoc)
qed

text \<open>
  Witness of C8, on the four login paths of the service. Answers 404, 404, then 200 with the
  success flag: success after three posts, the fourth path never tried. Answers 200 without
  the flag, then 200 with it: success after two posts. Four answers 404: failure after four
  posts. And the single step past a 404.
\<close>

theorem login_skips_404_stops_at_200_witness:
  "login cfg_example net_login_cycle svc0 =
     (True, \<lparr>authenticated = True,
             sent = [PostJson ''https://panel.example.com:54321/admin/login'',
                     PostJson ''https://panel.example.com:54321/admin/xui/login'',
                     PostJson ''https://panel.example.com:54321/admin/api/login'']\<rparr>)
   \<and> login cfg_example net_unsuccessful_first svc0 =
     (True, \<lparr>authenticated = True,
             sent = [PostJson ''https://panel.example.com:54321/admin/login'',
                     PostJson ''https://panel.example.com:54321/admin/xui/login'']\<rparr>)
   \<and> login cfg_example net_all_404 svc0 =
     (False, \<lparr>authenticated = False,
              sent = [PostJson ''https://panel.example.com:54321/admin/login'',
                      PostJson ''https://panel.example.com:54321/admin/xui/login'',
                      PostJson ''https://panel.example.com:54321/admin/api/login'',
                      PostJson ''https://panel.example.com:54321/admin/login/'']\<rparr>)
   \<and> login_loop net_all_404 ''https://panel.example.com:54321/admin''
         [''/login'', ''/xui/login''] svc0 =
       login_loop net_all_404 ''https://panel.example.com:54321/admin'' [''/xui/login'']
         \<lparr>authenticated = False,
          sent = [PostJson ''https://panel.example.com:54321/admin/login'']\<rparr>"
proof -
  let ?B = "''https://panel.example.com:54321/admin''"
  have m1: "\<forall>x \<in> set [''/login'', ''/xui/login'']. moves_on net_login_cycle (?B @ x)"
    by (simp add: moves_on_def succeeds_def refused_def net_login_cycle_def)
  have ok1: "post_json net_login_cycle (?B @ ''/api/login'') = Response 200 (JsonObj True None [])
             \<or> post_json net_login_cycle (?B @ ''/api/login'') = Response 200 NotJson"
    by (simp add: net_login_cycle_def)
  have r1: "login cfg_example net_login_cycle svc0 =
     (True, \<lparr>authenticated = True,
             sent = [PostJson ''https://panel.example.com:54321/admin/login'',
                     PostJson ''https://panel.example.com:54321/admin/xui/login'',
                     PostJson ''https://panel.example.com:54321/admin/api/login'']\<rparr>)"
    using login_skips_404_stops_at_200
      [OF m1, where e = "''/api/login''" and post = "[''/login/'']" and svc = svc0
         and m = None and ibs = "[]"] ok1
    by (simp add: login_example_base attempted_def attempt_requests_def retried_def send_def
        svc0_def net_login_cycle_def)
  have m2: "\<forall>x \<in> set [''/login'']. moves_on net_unsuccessful_first (?B @ x)"
    by (simp add: moves_on_def succeeds_def refused_def net_unsuccessful_first_def)
  have ok2: "post_json net_unsuccessful_first (?B @ ''/xui/login'')
               = Response 200 (JsonObj True None [])
             \<or> post_json net_unsuccessful_first (?B @ ''/xui/login'') = Response 200 NotJson"
    by (simp add: net_unsuccessful_first_def)
  have r2: "login cfg_example net_unsuccessful_first svc0 =
     (True, \<lparr>authenticated = True,
             sent = [PostJson ''https://panel.example.com:54321/admin/login'',
                     PostJson ''https://panel.example.com:54321/admin/xui/login'']\<rparr>)"
    using login_skips_404_stops_at_200
      [OF m2, where e = "''/xui/login''" and post = "[''/api/login'', ''/login/'']"
         and svc = svc0 and m = None and ibs = "[]"] ok2
    by (simp add: login_example_base attempted_def attempt_requests_def retried_def send_def
        svc0_def net_unsuccessful_first_def)
  have m3: "\<forall>x \<in> set [''/login'', ''/xui/login'', ''/api/login'', ''/login/''].
              moves_on net_all_404 (?B @ x)"
    by (simp add: moves_on_def succeeds_def refused_def net_all_404_def)
  have r3: "login cfg_example net_all_404 svc0 =
     (False, \<lparr>authenticated = False,
              sent = [PostJson ''https://panel.example.com:54321/admin/login'',
                      PostJson ''https://panel.example.com:54321/admin/xui/login'',
                      PostJson ''https://panel.example.com:54321/admin/api/login'',
                      PostJson ''https://panel.example.com:54321/admin/login/'']\<rparr>)"
    using login_skips_404_stops_at_200[OF m3, where svc = svc0]
    by (simp add: login_example_base attempted_def attempt_requests_def retried_def
        svc0_def net_all_404_def)
  have m4: "\<forall>x \<in> set []. moves_on net_all_404 (?B @ x)"
    by simp
  have nf: "\<exists>b. post_json net_all_404 (?B @ ''/login'') = Response 404 b"
    by (simp add: net_all_404_def)
  have r4: "login_loop net_all_404 ?B [''/login'', ''/xui/login''] svc0 =
       login_loop net_all_404 ?B [''/xui/login'']
         \<lparr>authenticated = False,
          sent = [PostJson ''https://panel.example.com:54321/admin/login'']\<rparr>"
    using login_skips_404_stops_at_200
      [OF m4, where e = "''/login''" and post = "[''/xui/login'']" and svc = svc0] nf
    by (simp add: attempted_def send_def svc0_def del: login_loop.simps)
  show ?thesis
    using r1 r2 r3 r4 by blast
qed

text \<open>
  C9. Let \<open>_login\<close> have moved on past the candidates \<open>pre\<close>, whatever their answers (404,
  timeout, a 200 without the success flag, ...). If they were all the candidates, it returns
  \<open>False\<close>. If the connection to the next candidate \<open>e\<close> is refused, on the JSON post or on
  the form-encoded retry, it returns \<open>False\<close> at once: the flag is untouched and no candidate
  after \<open>e\<close> is tried. If the next candidate times out, \<open>_login\<close> goes on with the candidates
  after it.
\<close>

theorem login_refusal_aborts_timeout_moves_on:
  assumes "\<forall>x \<in> set pre. moves_on net (base @ x)"
  shows "login_loop net base pre svc = (False, attempted net base pre svc)
         \<and> (refused net (base @ e) \<longrightarrow>
            login_loop net base (pre @ e # post) svc = (False, attempted net base (pre @ [e]) svc)
            \<and> authenticated (attempted net base (pre @ [e]) svc) = authenticated svc
            \<and> tried (sent (attempted net base (pre @ [e]) svc))
                = tried (sent svc) @ map ((@) base) (pre @ [e]))
         \<and> (timed_out net (base @ e) \<longrightarrow>
              login_loop net base (pre @ e # post) svc
                = login_loop net base post (attempted net base (pre @ [e]) svc))"
proof (intro conjI impI)
  show "login_loop net base pre svc = (False, attempted net base pre svc)"
    using login_loop_moves_on[OF assms, of "[]" svc] by simp
next
  assume r: "refused net (base @ e)"
  show "login_loop net base (pre @ e # post) svc = (False, attempted net base (pre @ [e]) svc)"
    unfolding login_loop_moves_on[OF assms]
    by (simp add: try_endpoint_refused[OF r] attempted_snoc)
  show "authenticated (attempted net base (pre @ [e]) svc) = authenticated svc"
    by (simp add: attempted_def)
  show "tried (sent (attempted net base (pre @ [e]) svc))
          = tried (sent svc) @ map ((@) base) (pre @ [e])"
    by (rule tried_attempted)
next
  assume t: "timed_out net (base @ e)"
  show "login_loop net base (pre @ e # post) svc
          = login_loop net base post (attempted net base (pre @ [e]) svc)"
    unfolding login_loop_moves_on[OF assms]
    by (simp add: try_endpoint_moves_on[OF timed_out_moves_on[OF t]] attempted_snoc)
qed

text \<open>
  Witness of C9, on the four login paths of the service. A timeout, then a refusal: failure
  after two attempts, although the remaining paths would have answered 200. A 404, then a
  refusal: the same. A timeout on the first path (on its form-encoded retry), then 200 with
  the success flag: success on the second path.
\<close>

theorem login_refusal_aborts_timeout_moves_on_witness:
  "login cfg_example net_refusing svc0 =
     (False, \<lparr>authenticated = False,
              sent = [PostJson ''https://panel.example.com:54321/admin/login'',
                      PostJson ''https://panel.example.com:54321/admin/xui/login'']\<rparr>)
   \<and> login cfg_example net_404_then_refusing svc0 =
     (False, \<lparr>authenticated = False,
              sent = [PostJson ''https://panel.example.com:54321/admin/login'',
                      PostJson ''https://panel.example.com:54321/admin/xui/login'']\<rparr>)
   \<and> login cfg_example net_timeout_then_ok svc0 =
     (True, \<lparr>authenticated = True,
             sent = [PostJson ''https://panel.example.com:54321/admin/login'',
                     PostForm ''https://panel.example.com:54321/admin/login'',
                     PostJson ''https://panel.example.com:54321/admin/xui/login'']\<rparr>)"
proof -
  let ?B = "''https://panel.example.com:54321/admin''"
  have t1: "timed_out net_refusing (?B @ ''/login'')"
    by (simp add: timed_out_def net_refusing_def)
  have m1: "\<forall>x \<in> set [''/login'']. moves_on net_refusing (?B @ x)"
    using timed_out_moves_on[OF t1] by simp
  have f1: "refused net_refusing (?B @ ''/xui/login'')"
    by (simp add: refused_def net_refusing_def)
  have r1: "login cfg_example net_refusing svc0 =
     (False, \<lparr>authenticated = False,
              sent = [PostJson ''https://panel.example.com:54321/admin/login'',
                      PostJson ''https://panel.example.com:54321/admin/xui/login'']\<rparr>)"
    using login_refusal_aborts_timeout_moves_on
      [OF m1, where e = "''/xui/login''" and post = "[''/api/login'', ''/login/'']"
         and svc = svc0] f1
    by (simp add: login_example_base attempted_def attempt_requests_def retried_def
        svc0_def net_refusing_def)
  have m2: "\<forall>x \<in> set [''/login'']. moves_on net_404_then_refusing (?B @ x)"
    by (simp add: moves_on_def succeeds_def refused_def net_404_then_refusing_def)
  have f2: "refused net_404_then_refusing (?B @ ''/xui/login'')"
    by (simp add: refused_def net_404_then_refusing_def)
  have r2: "login cfg_example net_404_then_refusing svc0 =
     (False, \<lparr>authenticated = False,
              sent = [PostJson ''https://panel.example.com:54321/admin/login'',
                      PostJson ''https://panel.example.com:54321/admin/xui/login'']\<rparr>)"
    using login_refusal_aborts_timeout_moves_on
      [OF m2, where e = "''/xui/login''" and post = "[''/api/login'', ''/login/'']"
         and svc = svc0] f2
    by (simp add: login_example_base attempted_def attempt_requests_def retried_def
        svc0_def net_404_then_refusing_def)
  have m3: "\<forall>x \<in> set []. moves_on net_timeout_then_ok (?B @ x)"
    by simp
  have t3: "timed_out net_timeout_then_ok (?B @ ''/login'')"
    by (simp add: timed_out_def net_timeout_then_ok_def)
  have r3: "login cfg_example net_timeout_then_ok svc0 =
     (True, \<lparr>authenticated = True,
             sent = [PostJson ''https://panel.example.com:54321/admin/login'',
                     PostForm ''https://panel.example.com:54321/admin/login'',
                     PostJson ''https://panel.example.com:54321/admin/xui/login'']\<rparr>)"
    using login_refusal_aborts_timeout_moves_on
      [OF m3, where e = "''/login''" and post = "[''/xui/login'', ''/api/login'', ''/login/'']"
         and svc = svc0] t3
    by (simp add: login_example_base attempted_def attempt_requests_def retried_def
        try_endpoint_def send_def svc0_def net_timeout_then_ok_def)
  show ?thesis
    using r1 r2 r3 by blast
qed


section \<open>Lookups\<close>

lemma get_inbound_clients_listed:
  assumes "authenticated svc"
    and "get_list net (list_url cfg) = Response 200 (JsonObj s m inbounds)"
  shows "get_inbound_clients cfg net i svc =
           (find (\<lambda>inbound. ib_id inbound = i) inbounds, send (GetList (list_url cfg)) svc)"
  using assms by (simp add: get_inbound_clients_def ensure_authenticated_id)

lemma device_label_cases:
  "device_label (if truthy username then username else None) e =
     (if truthy username \<and> e = get_str username then primary_device
      else if truthy username \<and> prefix (get_str username @ ''_'') e
              \<and> length (get_str username) + 1 < length e
      then drop (length (get_str username) + 1) e
      else e)"
  by (cases username) (auto simp: device_label_def truthy_def get_str_def primary_device_def prefix_def)

lemma collect_subscriptions_filter:
  "collect_subscriptions cfg tid base clients =
     map (\<lambda>c. \<lparr>s_email = get_str (c_email c),
               s_subscription_url = get_subscription_url cfg (get_str (c_subId c)) (DEFAULT_INBOUND_ID cfg),
               s_device_name = device_label base (get_str (c_email c)),
               s_sub_id = get_str (c_subId c)\<rparr>)
       (filter (\<lambda>c. get_str (c_tgId c) = str_int tid \<and> get_str (c_subId c) \<noteq> []) clients)"
  by (induction clients) (simp_all add: Let_def)

lemma get_all_user_subscriptions_listed:
  assumes "ensure_authenticated cfg net svc = (True, svc1)"
    and "DEFAULT_INBOUND_ID cfg = Some d" and "d \<noteq> 0"
    and "get_list net (list_url cfg) = Response 200 (JsonObj s m inbounds)"
    and "find (\<lambda>inbound. ib_id inbound = d) inbounds = Some inbound"
    and "ib_settings inbound = Some clients"
  shows "get_all_user_subscriptions cfg net telegram_user_id username svc =
     (map (\<lambda>c. \<lparr>s_email = get_str (c_email c),
                s_subscription_url = get_subscription_url cfg (get_str (c_subId c)) (Some d),
                s_device_name =
                  (if truthy username \<and> get_str (c_email c) = get_str username then primary_device
                   else if truthy username
                           \<and> prefix (get_str username @ ''_'') (get_str (c_email c))
                           \<and> length (get_str username) + 1 < length (get_str (c_email c))
                   then drop (length (get_str username) + 1) (get_str (c_email c))
                   else get_str (c_email c)),
                s_sub_id = get_str (c_subId c)\<rparr>)
        (filter (\<lambda>c. get_str (c_tgId c) = str_int telegram_user_id \<and> get_str (c_subId c) \<noteq> [])
           clients),
      send (GetList (list_url cfg)) svc1)"
proof -
  have a: "authenticated svc1"
    using assms(1) by (rule ensure_authenticated_True)
  have g: "get_inbound_clients cfg net d svc1 = (Some inbound, send (GetList (list_url cfg)) svc1)"
    using get_inbound_clients_listed[OF a assms(4), of d] assms(5) by simp
  show ?thesis
    unfolding get_all_user_subscriptions_def
    by (simp add: assms(1,2,3,6) g collect_subscriptions_filter device_label_cases)
qed

text \<open>
  C4, amended. When the session is authenticated and the listing holds the default inbound with
  a decodable client list, \<open>get_all_user_subscriptions\<close> returns, in the order of that list,
  one entry for each record whose \<open>tgId\<close> is the decimal text of the queried id and whose
  \<open>subId\<close> is present and not empty, and nothing else. The device label of an entry is the
  primary-device text when the email is the base username, the remainder after \<open>username_\<close>
  when the email starts with that prefix and the remainder is not empty, and the raw email
  otherwise (also when no base username is given).
\<close>

theorem get_all_user_subscriptions_filter:
  assumes "ensure_authenticated cfg net svc = (True, svc1)"
    and "DEFAULT_INBOUND_ID cfg = Some d" and "d \<noteq> 0"
    and "get_list net (list_url cfg) = Response 200 (JsonObj s m inbounds)"
    and "find (\<lambda>inbound. ib_id inbound = d) inbounds = Some inbound"
    and "ib_settings inbound = Some clients"
  shows "get_all_user_subscriptions cfg net telegram_user_id username svc =
     (map (\<lambda>c. \<lparr>s_email = get_str (c_email c),
                s_subscription_url = get_subscription_url cfg (get_str (c_subId c)) (Some d),
                s_device_name =
                  (if truthy username \<and> get_str (c_email c) = get_str username then primary_device
                   else if truthy username
                           \<and> prefix (get_str username @ ''_'') (get_str (c_email c))
                           \<and> length (get_str username) + 1 < length (get_str (c_email c))
                   then drop (length (get_str username) + 1) (get_str (c_email c))
                   else get_str (c_email c)),
                s_sub_id = get_str (c_subId c)\<rparr>)
        (filter (\<lambda>c. get_str (c_tgId c) = str_int telegram_user_id \<and> get_str (c_subId c) \<noteq> [])
           clients),
      send (GetList (list_url cfg)) svc1)"
  using assms by (rule get_all_user_subscriptions_listed)

text \<open>
  Witness of C4: of five records, the one of another owner and the one without \<open>subId\<close> are
  left out, and the other three come in panel order with their labels.
\<close>

theorem get_all_user_subscriptions_filter_witness:
  "get_all_user_subscriptions cfg_example net_three 7 (Some ''alice'') svc0 =
     ([\<lparr>s_email = ''alice'', s_subscription_url = ''https://panel.example.com:2096/sub/S1'',
        s_device_name = primary_device, s_sub_id = ''S1''\<rparr>,
       \<lparr>s_email = ''alice_phone'', s_subscription_url = ''https://panel.example.com:2096/sub/S3'',
        s_device_name = ''phone'', s_sub_id = ''S3''\<rparr>,
       \<lparr>s_email = ''carol'', s_subscription_url = ''https://panel.example.com:2096/sub/S5'',
        s_device_name = ''carol'', s_sub_id = ''S5''\<rparr>],
      \<lparr>authenticated = True,
       sent = [PostJson ''https://panel.example.com:54321/admin/login'',
               GetList ''https://panel.example.com:54321/admin/panel/api/inbounds/list'']\<rparr>)"
proof -
  have e: "ensure_authenticated cfg_example net_three svc0 =
             (True, \<lparr>authenticated = True,
                     sent = [PostJson ''https://panel.example.com:54321/admin/login'']\<rparr>)"
    by (simp add: ensure_authenticated_def login_def login_endpoints_def try_endpoint_def
        send_def rstrip_slash_def ex_defs)
  have l: "get_list net_three (list_url cfg_example)
             = Response 200 (JsonObj True None [vmess_inbound 1 clients_three])"
    by (simp add: net_three_def panel_def)
  show ?thesis
    using get_all_user_subscriptions_filter
      [OF e, of 1 True None "[vmess_inbound 1 clients_three]" "vmess_inbound 1 clients_three"
         clients_three 7 "Some ''alice''"] l
    by (simp add: get_subscription_url_def before_first_def list_url_def rstrip_slash_def
        send_def truthy_def get_str_def str_int_def digit_char_def ex_defs)
qed

text \<open>
  Counterexample to C4 as stated: for the base username \<open>alice\<close> and a record with the email
  \<open>alice_\<close>, the remainder after the prefix \<open>alice_\<close> is empty, and the label returned is the
  raw email.
\<close>

theorem get_all_user_subscriptions_label_counterexample:
  "map s_device_name
     (fst (get_all_user_subscriptions cfg_example net_underscore 7 (Some ''alice'') svc0))
     = [''alice_'']
   \<and> map (spec_device_label ''alice'') [''alice_''] = [[]]"
  by (simp add: get_all_user_subscriptions_def ensure_authenticated_def login_def
      login_endpoints_def try_endpoint_def get_inbound_clients_def send_def list_url_def
      rstrip_slash_def get_str_def str_int_def digit_char_def truthy_def device_label_def
      spec_device_label_def net_underscore_def Let_def ex_defs)

lemma find_user_by_username_listed:
  assumes "ensure_authenticated cfg net svc = (True, svc1)"
    and "(case inbound_id of Some i \<Rightarrow> Some i | None \<Rightarrow> DEFAULT_INBOUND_ID cfg) = Some d"
    and "d \<noteq> 0"
    and "get_list net (list_url cfg) = Response 200 (JsonObj s m inbounds)"
    and "find (\<lambda>inbound. ib_id inbound = d) inbounds = Some inbound"
    and "ib_settings inbound = Some clients"
  shows "find_user_by_username cfg net email inbound_id svc =
     (map_option
        (\<lambda>c. \<lparr>fu_username = email, fu_sub_id = get_str (c_subId c), fu_uuid = c_id c,
               fu_subscription_url = get_subscription_url cfg (get_str (c_subId c)) (Some d),
               fu_inbound_id = d\<rparr>)
        (find (\<lambda>c. get_str (c_email c) = email \<and> get_str (c_subId c) \<noteq> []) clients),
      send (GetList (list_url cfg)) svc1)"
proof -
  have a: "authenticated svc1"
    using assms(1) by (rule ensure_authenticated_True)
  have g: "get_inbound_clients cfg net d svc1 = (Some inbound, send (GetList (list_url cfg)) svc1)"
    using get_inbound_clients_listed[OF a assms(4), of d] assms(5) by simp
  have sc: "scan_clients cfg email d clients =
     map_option
        (\<lambda>c. \<lparr>fu_username = email, fu_sub_id = get_str (c_subId c), fu_uuid = c_id c,
               fu_subscription_url = get_subscription_url cfg (get_str (c_subId c)) (Some d),
               fu_inbound_id = d\<rparr>)
        (find (\<lambda>c. get_str (c_email c) = email \<and> get_str (c_subId c) \<noteq> []) clients)"
    by (induction clients) (simp_all add: Let_def)
  show ?thesis
    unfolding find_user_by_username_def
    by (simp add: assms(1,2,3,6) g sc)
qed

text \<open>
  C6, amended. When the session is authenticated and the listing holds the inbound looked into
  (the given one, or the configured default) with a decodable client list,
  \<open>find_user_by_username\<close> returns the first record whose email equals the queried email and
  whose \<open>subId\<close> is present and not empty, as the dictionary built from it, and \<open>None\<close> when
  the list holds no such record.
\<close>

theorem find_user_by_username_first_with_sub_id:
  assumes "ensure_authenticated cfg net svc = (True, svc1)"
    and "(case inbound_id of Some i \<Rightarrow> Some i | None \<Rightarrow> DEFAULT_INBOUND_ID cfg) = Some d"
    and "d \<noteq> 0"
    and "get_list net (list_url cfg) = Response 200 (JsonObj s m inbounds)"
    and "find (\<lambda>inbound. ib_id inbound = d) inbounds = Some inbound"
    and "ib_settings inbound = Some clients"
  shows "find_user_by_username cfg net email inbound_id svc =
     (map_option
        (\<lambda>c. \<lparr>fu_username = email, fu_sub_id = get_str (c_subId c), fu_uuid = c_id c,
               fu_subscription_url = get_subscription_url cfg (get_str (c_subId c)) (Some d),
               fu_inbound_id = d\<rparr>)
        (find (\<lambda>c. get_str (c_email c) = email \<and> get_str (c_subId c) \<noteq> []) clients),
      send (GetList (list_url cfg)) svc1)"
  using assms by (rule find_user_by_username_listed)

text \<open>Witness of C6: the lookup of \<open>alice_phone\<close> among the five example records.\<close>

theorem find_user_by_username_first_with_sub_id_witness:
  "find_user_by_username cfg_example net_three ''alice_phone'' None svc0 =
     (Some \<lparr>fu_username = ''alice_phone'', fu_sub_id = ''S3'', fu_uuid = Some ''u-3'',
            fu_subscription_url = ''https://panel.example.com:2096/sub/S3'',
            fu_inbound_id = 1\<rparr>,
      \<lparr>authenticated = True,
       sent = [PostJson ''https://panel.example.com:54321/admin/login'',
               GetList ''https://panel.example.com:54321/admin/panel/api/inbounds/list'']\<rparr>)"
proof -
  have e: "ensure_authenticated cfg_example net_three svc0 =
             (True, \<lparr>authenticated = True,
                     sent = [PostJson ''https://panel.example.com:54321/admin/login'']\<rparr>)"
    by (simp add: ensure_authenticated_def login_def login_endpoints_def try_endpoint_def
        send_def rstrip_slash_def ex_defs)
  have l: "get_list net_three (list_url cfg_example)
             = Response 200 (JsonObj True None [vmess_inbound 1 clients_three])"
    by (simp add: net_three_def panel_def)
  show ?thesis
    using find_user_by_username_first_with_sub_id
      [OF e, of None 1 True None "[vmess_inbound 1 clients_three]" "vmess_inbound 1 clients_three"
         clients_three "''alice_phone''"] l
    by (simp add: get_subscription_url_def before_first_def list_url_def rstrip_slash_def
        send_def get_str_def ex_defs)
qed

text \<open>
  Counterexample to C6 as stated: the fetched inbound holds a record whose email is
  \<open>alice_old\<close>, without \<open>subId\<close>, and the lookup of \<open>alice_old\<close> returns \<open>None\<close>.
\<close>

theorem find_user_by_username_counterexample:
  "fst (find_user_by_username cfg_example net_three ''alice_old'' None svc0) = None
   \<and> map c_email clients_three
       = [Some ''alice'', Some ''bob'', Some ''alice_phone'', Some ''alice_old'', Some ''carol'']
   \<and> get_list net_three (list_url cfg_example)
       = Response 200 (JsonObj True None [vmess_inbound 1 clients_three])"
  by (simp add: find_user_by_username_def ensure_authenticated_def login_def
      login_endpoints_def try_endpoint_def get_inbound_clients_def send_def list_url_def
      rstrip_slash_def get_str_def Let_def ex_defs)

text \<open>
  C10. \<open>get_user_subscription\<close> returns the subscription URL of the first element of the list
  \<open>get_all_user_subscriptions\<close> produces for the same arguments, \<open>None\<close> when that list is
  empty, and leaves the service in the state the list-returning lookup leaves it in.
\<close>

theorem get_user_subscription_is_head:
  "get_user_subscription cfg net telegram_user_id username svc =
     (spec_first_url (fst (get_all_user_subscriptions cfg net telegram_user_id username svc)),
      snd (get_all_user_subscriptions cfg net telegram_user_id username svc))"
  by (simp add: get_user_subscription_def spec_first_url_def split: prod.splits list.splits)

text \<open>Witness of C10: an owner with subscriptions, and an owner without.\<close>

theorem get_user_subscription_is_head_witness:
  "fst (get_user_subscription cfg_example net_three 7 (Some ''alice'') svc0)
     = Some ''https://panel.example.com:2096/sub/S1''
   \<and> fst (get_user_subscription cfg_example net_three 9 (Some ''dave'') svc0) = None"
  using get_user_subscription_is_head[of cfg_example net_three 7 "Some ''alice''" svc0]
    get_user_subscription_is_head[of cfg_example net_three 9 "Some ''dave''" svc0]
  by (simp add: spec_first_url_def get_all_user_subscriptions_def ensure_authenticated_def
      login_def login_endpoints_def try_endpoint_def get_inbound_clients_def send_def
      list_url_def rstrip_slash_def get_str_def str_int_def digit_char_def truthy_def
      device_label_def get_subscription_url_def before_first_def Let_def ex_defs)


section \<open>Account creation\<close>

text \<open>No operation other than the submission itself adds an add-client request.\<close>

lemma submitted_append: "submitted (xs @ ys) = submitted xs @ submitted ys"
  by (induction xs rule: submitted.induct) simp_all

lemma try_endpoint_submitted:
  "submitted (sent (snd (try_endpoint net url svc))) = submitted (sent svc)"
  by (auto simp: try_endpoint_def send_def Let_def submitted_append
      split: outcome.splits body.splits)

lemma login_loop_submitted:
  "submitted (sent (snd (login_loop net base es svc))) = submitted (sent svc)"
proof (induction es arbitrary: svc)
  case Nil
  show ?case by simp
next
  case (Cons e es)
  obtain a s1 where t: "try_endpoint net (base @ e) svc = (a, s1)"
    by (cases "try_endpoint net (base @ e) svc")
  have s1: "submitted (sent s1) = submitted (sent svc)"
    using try_endpoint_submitted[of net "base @ e" svc] t by simp
  show ?case
    using Cons.IH[of s1] s1 by (cases a) (simp_all add: t)
qed

lemma ensure_authenticated_submitted:
  "submitted (sent (snd (ensure_authenticated cfg net svc))) = submitted (sent svc)"
  by (simp add: ensure_authenticated_def login_def login_loop_submitted)

lemma get_inbound_clients_submitted:
  "submitted (sent (snd (get_inbound_clients cfg net i svc))) = submitted (sent svc)"
  using ensure_authenticated_submitted[of cfg net svc]
  by (auto simp: get_inbound_clients_def send_def Let_def submitted_append
      split: prod.splits outcome.splits body.splits)

lemma get_existing_inbound_submitted:
  "submitted (sent (snd (get_existing_inbound cfg net p svc))) = submitted (sent svc)"
  using ensure_authenticated_submitted[of cfg net svc]
  by (auto simp: get_existing_inbound_def send_def Let_def submitted_append
      split: prod.splits outcome.splits body.splits)

lemma get_inbound_clients_submittedD:
  "get_inbound_clients cfg net i svc = (r, svc1) \<Longrightarrow> submitted (sent svc1) = submitted (sent svc)"
  using get_inbound_clients_submitted[of cfg net i svc] by simp

lemma find_user_by_username_submitted:
  "submitted (sent (snd (find_user_by_username cfg net e i svc))) = submitted (sent svc)"
proof -
  obtain ok s1 where en: "ensure_authenticated cfg net svc = (ok, s1)"
    by (cases "ensure_authenticated cfg net svc")
  have s1: "submitted (sent s1) = submitted (sent svc)"
    using ensure_authenticated_submitted[of cfg net svc] en by simp
  show ?thesis
    using s1
    by (auto simp: find_user_by_username_def en split: option.splits prod.splits
        dest: get_inbound_clients_submittedD)
qed

lemma find_user_by_username_submittedD:
  "find_user_by_username cfg net e i svc = (r, svc1) \<Longrightarrow>
     submitted (sent svc1) = submitted (sent svc)"
  using find_user_by_username_submitted[of cfg net e i svc] by simp

lemma probe_devices_submitted:
  "submitted (sent (snd (probe_devices cfg net u dv counter svc))) = submitted (sent svc)"
proof (induction cfg net u dv counter svc rule: probe_devices.induct)
  case (1 cfg net u dv counter svc)
  obtain r s1 where f:
    "find_user_by_username cfg net (u @ ''_'' @ dv @ ''_'' @ str_nat counter) None svc = (r, s1)"
    by (cases "find_user_by_username cfg net (u @ ''_'' @ dv @ ''_'' @ str_nat counter) None svc")
  have s1: "submitted (sent s1) = submitted (sent svc)"
    using f by (rule find_user_by_username_submittedD)
  show ?case
  proof (cases r)
    case None
    then show ?thesis
      using f s1 by (subst probe_devices.simps) (simp add: Let_def)
  next
    case (Some existing)
    show ?thesis
    proof (cases "counter + 1 > 100")
      case True
      then show ?thesis
        using f s1 Some by (subst probe_devices.simps) (simp add: Let_def)
    next
      case False
      have "submitted (sent (snd (probe_devices cfg net u dv (counter + 1) s1)))
              = submitted (sent s1)"
        using "1.IH"[OF refl f[symmetric] Some False] .
      then show ?thesis
        using f s1 Some False by (subst probe_devices.simps) (simp add: Let_def)
    qed
  qed
qed

lemma probe_devices_submittedD:
  "probe_devices cfg net u dv c svc = (r, svc1) \<Longrightarrow> submitted (sent svc1) = submitted (sent svc)"
  using probe_devices_submitted[of cfg net u dv c svc] by simp

lemma choose_email_submitted:
  "submitted (sent (snd (choose_email cfg net u device svc))) = submitted (sent svc)"
proof (cases "truthy device")
  case True
  obtain r s1 where f:
    "find_user_by_username cfg net (u @ ''_'' @ get_str device) None svc = (r, s1)"
    by (cases "find_user_by_username cfg net (u @ ''_'' @ get_str device) None svc")
  note s1 = find_user_by_username_submittedD[OF f]
  show ?thesis
  proof (cases r)
    case None
    then show ?thesis
      using True f s1 by (simp add: choose_email_def)
  next
    case (Some existing)
    obtain q s2 where p: "probe_devices cfg net u (get_str device) 2 s1 = (q, s2)"
      by (cases "probe_devices cfg net u (get_str device) 2 s1")
    note s2 = probe_devices_submittedD[OF p]
    show ?thesis
      using True f s1 Some p s2 by (cases q) (simp_all add: choose_email_def)
  qed
next
  case False
  obtain r s1 where f: "find_user_by_username cfg net u None svc = (r, s1)"
    by (cases "find_user_by_username cfg net u None svc")
  note s1 = find_user_by_username_submittedD[OF f]
  show ?thesis
    using False f s1 by (cases r) (simp_all add: choose_email_def)
qed

lemma target_inbound_submitted:
  "submitted (sent (snd (target_inbound cfg net svc))) = submitted (sent svc)"
  using get_existing_inbound_submitted[of cfg net "Some (DEFAULT_PROTOCOL cfg)" svc]
  by (auto simp: target_inbound_def split: option.splits prod.splits)

text \<open>Without a configured inbound id the existence checks of \<open>create_user\<close> find nothing.\<close>

lemma find_user_by_username_no_default:
  "DEFAULT_INBOUND_ID cfg = None \<Longrightarrow> fst (find_user_by_username cfg net e None svc) = None"
  by (simp add: find_user_by_username_def split: prod.splits)

lemma choose_email_no_default:
  assumes "DEFAULT_INBOUND_ID cfg = None"
  shows "\<exists>email. fst (choose_email cfg net u device svc) = Inr email"
proof (cases "truthy device")
  case True
  obtain r s1 where f:
    "find_user_by_username cfg net (u @ ''_'' @ get_str device) None svc = (r, s1)"
    by (cases "find_user_by_username cfg net (u @ ''_'' @ get_str device) None svc")
  have "r = None"
    using find_user_by_username_no_default[OF assms, of net "u @ ''_'' @ get_str device" svc] f
    by simp
  then show ?thesis
    using True f by (simp add: choose_email_def)
next
  case False
  obtain r s1 where f: "find_user_by_username cfg net u None svc = (r, s1)"
    by (cases "find_user_by_username cfg net u None svc")
  have "r = None"
    using find_user_by_username_no_default[OF assms, of net u svc] f by simp
  then show ?thesis
    using False f by (simp add: choose_email_def)
qed

text \<open>
  C5, amended. When the identity has a username, no inbound id is configured and
  \<open>_get_existing_inbound\<close> finds no inbound, \<open>create_user\<close> returns the untagged \<open>None\<close>, the
  same value as for every other unclassified failure, and submits no record.
\<close>

theorem create_user_no_inbound_returns_None:
  assumes "truthy username" and "DEFAULT_INBOUND_ID cfg = None"
    and "\<forall>s. fst (get_existing_inbound cfg net (Some (DEFAULT_PROTOCOL cfg)) s) = None"
  shows "fst (create_user cfg net telegram_user_id username device_name user_uuid sub_id svc) = None
         \<and> submitted (sent (snd (create_user cfg net telegram_user_id username device_name
                                     user_uuid sub_id svc)))
             = submitted (sent svc)"
proof -
  obtain ok s1 where en: "ensure_authenticated cfg net svc = (ok, s1)"
    by (cases "ensure_authenticated cfg net svc")
  have s1: "submitted (sent s1) = submitted (sent svc)"
    using ensure_authenticated_submitted[of cfg net svc] en by simp
  show ?thesis
  proof (cases ok)
    case False
    then show ?thesis
      using assms(1) en s1 by (simp add: create_user_def)
  next
    case True
    obtain x s2 where ch: "choose_email cfg net (get_str username) device_name s1 = (x, s2)"
      by (cases "choose_email cfg net (get_str username) device_name s1")
    obtain email where x: "x = Inr email"
      using choose_email_no_default[OF assms(2), of net "get_str username" device_name s1] ch
      by auto
    have s2: "submitted (sent s2) = submitted (sent s1)"
      using choose_email_submitted[of cfg net "get_str username" device_name s1] ch by simp
    obtain r s3 where ge:
      "get_existing_inbound cfg net (Some (DEFAULT_PROTOCOL cfg)) s2 = (r, s3)"
      by (cases "get_existing_inbound cfg net (Some (DEFAULT_PROTOCOL cfg)) s2")
    have r: "r = None"
      using assms(3) ge by (metis fst_conv)
    have s3: "submitted (sent s3) = submitted (sent s2)"
      using get_existing_inbound_submitted[of cfg net "Some (DEFAULT_PROTOCOL cfg)" s2] ge
      by simp
    have t: "target_inbound cfg net s2 = (None, s3)"
      by (simp add: target_inbound_def assms(2) ge r)
    show ?thesis
      using assms(1) True en ch x t s1 s2 s3 by (simp add: create_user_def)
  qed
qed

text \<open>Witness of C5: no inbound id configured, and a panel without an enabled \<open>vmess\<close> inbound.\<close>

theorem create_user_no_inbound_returns_None_witness:
  "fst (create_user cfg_auto net_disabled 7 (Some ''alice'') (Some ''phone'') ''uuid-1'' ''SUB1''
          svc0) = None
   \<and> submitted (sent (snd (create_user cfg_auto net_disabled 7 (Some ''alice'') (Some ''phone'')
                             ''uuid-1'' ''SUB1'' svc0))) = []"
proof -
  have t: "truthy (Some ''alice'')"
    by (simp add: truthy_def)
  have d: "DEFAULT_INBOUND_ID cfg_auto = None"
    by (simp add: cfg_auto_def)
  have g: "\<forall>s. fst (get_existing_inbound cfg_auto net_disabled
                       (Some (DEFAULT_PROTOCOL cfg_auto)) s) = None"
    by (simp add: get_existing_inbound_def net_disabled_def panel_def vmess_inbound_def
        cfg_auto_def cfg_example_def truthy_def Let_def split: prod.splits)
  show ?thesis
    using create_user_no_inbound_returns_None[OF t d g, of 7 "Some ''phone''" "''uuid-1''"
        "''SUB1''" svc0]
    by (simp add: svc0_def)
qed

text \<open>
  Counterexample to C5 as stated: on the same configuration and panel the value returned is
  \<open>None\<close>, not a tagged rejection.
\<close>

theorem create_user_no_inbound_counterexample:
  "create_user cfg_auto net_disabled 7 (Some ''alice'') None ''uuid-1'' ''SUB1'' svc0 =
     (None,
      \<lparr>authenticated = True,
       sent = [PostJson ''https://panel.example.com:54321/admin/login'',
               GetList ''https://panel.example.com:54321/admin/panel/api/inbounds/list'']\<rparr>)"
  by (simp add: create_user_def choose_email_def target_inbound_def get_existing_inbound_def
      find_user_by_username_def ensure_authenticated_def login_def login_endpoints_def
      try_endpoint_def send_def list_url_def rstrip_slash_def truthy_def get_str_def Let_def
      net_disabled_def cfg_auto_def ex_defs)


lemma send_authenticated [simp]: "authenticated (send r svc) = authenticated svc"
  by (simp add: send_def)




text \<open>The definitions to unfold when a whole call is evaluated on example data.\<close>

lemmas run_defs = create_user_def choose_email_def target_inbound_def add_client_def
  recover_existing_def existence_indicated_def lower_def lower_char_def client_data_def
  add_client_url_def get_existing_inbound_def find_user_by_username_def
  get_inbound_clients_def ensure_authenticated_def login_def login_endpoints_def
  try_endpoint_def send_def list_url_def rstrip_slash_def truthy_def get_str_def str_int_def
  digit_char_def get_subscription_url_def before_first_def Let_def


















text \<open>
  C1. When the add-client call fails with a message that indicates an existing account, the
  re-query is to be made by the email that was submitted. No inbound id is configured, the
  panel holds \<open>alice\<close> (subscription \<open>S1\<close>) and \<open>alice_phone\<close> (subscription \<open>S2\<close>), and
  \<open>create_user\<close> is called for \<open>alice\<close> with the device \<open>phone\<close>: it submits \<open>alice_phone\<close>, the
  panel rejects the duplicate, and the function looks up the bare username \<open>alice\<close> and returns
  \<open>username_exists\<close> with the URL of \<open>S1\<close>, in the status-200 branch and in the other one,
  while the lookup of the submitted email in the same inbound finds the account of \<open>S2\<close>.
\<close>

theorem create_user_requeries_bare_username:
  "create_user cfg_auto net_duplicate 7 (Some ''alice'') (Some ''phone'') ''uuid-9'' ''SUB9'' svc0 =
     (Some (UsernameExists ''alice'' ''https://panel.example.com:2096/sub/S1''),
      \<lparr>authenticated = True,
       sent = [PostJson ''https://panel.example.com:54321/admin/login'',
               GetList ''https://panel.example.com:54321/admin/panel/api/inbounds/list'',
               PostAddClient ''https://panel.example.com:54321/admin/panel/api/inbounds/addClient''
                 1 (client_data cfg_auto 7 ''alice_phone'' ''uuid-9'' ''SUB9''),
               GetList ''https://panel.example.com:54321/admin/panel/api/inbounds/list'']\<rparr>)
   \<and> fst (create_user cfg_auto net_duplicate_400 7 (Some ''alice'') (Some ''phone'') ''uuid-9''
            ''SUB9'' svc0)
       = Some (UsernameExists ''alice'' ''https://panel.example.com:2096/sub/S1'')
   \<and> map_option fu_subscription_url
         (fst (find_user_by_username cfg_auto net_duplicate ''alice_phone'' (Some 1) svc0))
       = Some ''https://panel.example.com:2096/sub/S2''"
  by (simp add: run_defs net_duplicate_def net_duplicate_400_def clients_pair_def cfg_auto_def
      ex_defs)

end
